theory Spec2Isabelle
  imports Main "HOL-Library.Sublist"
begin

section \<open>The stock analysis dashboard\<close>

text \<open>
  The program, \<^verbatim>\<open>financial_agent.py\<close>, is one class, \<^verbatim>\<open>StockAnalysisApp\<close>, whose methods read widget values,
  keep two entries in \<^verbatim>\<open>st.session_state\<close> and call a remote assistant. The embedding
  passes the application state explicitly, takes the widget values of one script run as
  a record, takes the behaviour of the remote assistant as a parameter, and returns a
  raised Python exception as a value (\<open>Inl\<close>).
\<close>

subsection \<open>Python values and exceptions\<close>

text \<open>
  The arguments of \<^verbatim>\<open>YFinanceTools(...)\<close>, \<^verbatim>\<open>OpenAIChat(...)\<close> and \<^verbatim>\<open>Assistant(...)\<close>;
  an assistant object is the record of the arguments it was built from.
\<close>

record YFinanceTools =
  stock_price :: bool
  analyst_recommendations :: bool
  company_info :: bool
  company_news :: bool

record OpenAIChat =
  model :: string
  api_key :: string

record Assistant =
  llm :: OpenAIChat
  tools :: "YFinanceTools list"
  show_tool_calls :: bool

text \<open>The values the program stores in the session: \<^verbatim>\<open>None\<close>, a bool, an assistant.\<close>

datatype py_value = PyNone | PyBool bool | PyAssistant Assistant

text \<open>
  Exceptions, all of them instances of \<^verbatim>\<open>Exception\<close>: \<open>AttributeError t a\<close> is
  raised when attribute \<open>a\<close> is read from an object of type \<open>t\<close> that lacks it;
  \<open>OtherException m\<close> is any other exception, with its message.
\<close>

datatype py_exception = AttributeError string string | OtherException string

text \<open>Truth value of a stored value in \<^verbatim>\<open>if v:\<close>.\<close>

fun truthy :: "py_value \<Rightarrow> bool" where
  "truthy PyNone = False"
| "truthy (PyBool b) = b"
| "truthy (PyAssistant a) = True"

subsection \<open>The query builder\<close>

text \<open>\<^verbatim>\<open>sep.join(xs)\<close> on a list of strings.\<close>

fun str_join :: "string \<Rightarrow> string list \<Rightarrow> string" where
  "str_join sep [] = []"
| "str_join sep [x] = x"
| "str_join sep (x # y # ys) = x @ sep @ str_join sep (y # ys)"

text \<open>The options of the selectbox "Choose Analysis Type" in \<^verbatim>\<open>handle_stock_comparison\<close>.\<close>

definition analysis_types :: "string list" where
  "analysis_types = [''Full Comparison'', ''Price Analysis'', ''Fundamentals'', ''News'']"

text \<open>
  The dictionary literal of \<^verbatim>\<open>generate_query\<close>, in its insertion order: one f-string per
  analysis type.
\<close>

definition queries :: "string \<Rightarrow> string \<Rightarrow> (string \<times> string) list" where
  "queries stock1 stock2 =
     [(''Full Comparison'',
         ''Provide a comprehensive comparison between '' @ stock1 @ '' and '' @ stock2 @
         '' including price trends, fundamentals, and market sentiment.''),
      (''Price Analysis'',
         ''Compare price performance and technical indicators for '' @ stock1 @ '' and '' @
         stock2 @ ''.''),
      (''Fundamentals'',
         ''Compare key fundamental metrics and financial health of '' @ stock1 @ '' and '' @
         stock2 @ ''.''),
      (''News'',
         ''Compare recent news and market sentiment for '' @ stock1 @ '' and '' @ stock2 @
         ''.'')]"

text \<open>
  \<^verbatim>\<open>queries.get(analysis_type, queries["Full Comparison"])\<close>: the default is the entry
  under the key \<^verbatim>\<open>"Full Comparison"\<close>, which the literal always holds
  (lemma \<open>queries_full_comparison\<close>), so the subscript cannot raise.
\<close>

definition generate_query :: "string \<Rightarrow> string \<Rightarrow> string \<Rightarrow> string" where
  "generate_query stock1 stock2 analysis_type =
     (case map_of (queries stock1 stock2) analysis_type of
        Some q \<Rightarrow> q
      | None \<Rightarrow> the (map_of (queries stock1 stock2) ''Full Comparison''))"

text \<open>
  The f-string of \<^verbatim>\<open>handle_single_stock\<close>:
  \<^verbatim>\<open>f"Analyze {stock} focusing on {', '.join(metrics)}"\<close>.
\<close>

definition single_stock_query :: "string \<Rightarrow> string list \<Rightarrow> string" where
  "single_stock_query stock metrics =
     ''Analyze '' @ stock @ '' focusing on '' @ str_join '', '' metrics"

subsection \<open>Session state, remote assistant, widgets\<close>

text \<open>
  \<^verbatim>\<open>st.session_state\<close>, restricted to the two entries the program uses. \<open>None\<close>
  means that the entry has never been set (\<^verbatim>\<open>'assistant' not in st.session_state\<close>);
  \<open>Some PyNone\<close> is the entry holding Python's \<^verbatim>\<open>None\<close>.
\<close>

record SessionState =
  api_key_verified :: "py_value option"
  assistant :: "py_value option"

text \<open>
  The remote assistant is a parameter. \<open>assistant_new R a\<close> tells whether building
  the assistant \<open>a\<close> raises (\<open>Some e\<close>) or gives the object (\<open>None\<close>);
  \<open>assistant_run R a q\<close> is the outcome of \<^verbatim>\<open>a.run(q, stream=False)\<close>.
\<close>

record remote =
  assistant_new :: "Assistant \<Rightarrow> py_exception option"
  assistant_run :: "Assistant \<Rightarrow> string \<Rightarrow> py_exception + string"

text \<open>The calls made to the remote assistant, and the messages shown, both in order.\<close>

datatype remote_call = Construct Assistant | Run Assistant string

datatype ui_event =
  StSuccess string | StError string | StWarning string | StInfo string | StMarkdown string

record app_state =
  session_state :: SessionState
  remote_calls :: "remote_call list"
  displayed :: "ui_event list"

text \<open>
  The widget values of one script run: the text inputs, the selectbox, the multiselect,
  and for each button whether it was pressed. Headings, captions, the About text and the
  layout containers (page configuration, tabs, columns, form, spinner, expander) show
  fixed content and are left out.
\<close>

record ui_input =
  in_api_key :: string
  btn_submitted :: bool
  in_stock1 :: string
  in_stock2 :: string
  in_analysis_type :: string
  btn_generate :: bool
  in_stock :: string
  in_metrics :: "string list"
  btn_analyze :: bool

definition show_event :: "ui_event \<Rightarrow> app_state \<Rightarrow> app_state" where
  "show_event ev s = s\<lparr>displayed := displayed s @ [ev]\<rparr>"

subsection \<open>The methods of StockAnalysisApp\<close>

text \<open>
  \<^verbatim>\<open>__init__\<close>: each of the two session entries gets its default if it is not in the
  session yet. (\<^verbatim>\<open>setup_page\<close>, called last, configures the page title and layout only.)
\<close>

definition init :: "app_state \<Rightarrow> app_state" where
  "init s =
     (let ss = session_state s;
          ss1 = (if api_key_verified ss = None
                 then ss\<lparr>api_key_verified := Some (PyBool False)\<rparr> else ss);
          ss2 = (if assistant ss1 = None
                 then ss1\<lparr>assistant := Some PyNone\<rparr> else ss1)
      in s\<lparr>session_state := ss2\<rparr>)"

text \<open>The constructor expression of \<^verbatim>\<open>verify_api_key\<close> (lines 31 to 43).\<close>

definition assistant_for :: "string \<Rightarrow> Assistant" where
  "assistant_for key =
     \<lparr>llm = \<lparr>model = ''gpt-4o'', api_key = key\<rparr>,
      tools = [\<lparr>stock_price = True, analyst_recommendations = True,
                company_info = True, company_news = True\<rparr>],
      show_tool_calls = True\<rparr>"

text \<open>
  \<^verbatim>\<open>verify_api_key\<close>: the construction is attempted first. If it gives an object, the
  object and the flag \<^verbatim>\<open>True\<close> are stored and the result is \<^verbatim>\<open>True\<close>; if it raises,
  \<^verbatim>\<open>except Exception\<close> stores the flag \<^verbatim>\<open>False\<close>, nothing else, and the result is
  \<^verbatim>\<open>False\<close>.
\<close>

definition verify_api_key ::
  "remote \<Rightarrow> string \<Rightarrow> app_state \<Rightarrow> (py_exception + bool) \<times> app_state" where
  "verify_api_key R key s =
     (let a = assistant_for key;
          s1 = s\<lparr>remote_calls := remote_calls s @ [Construct a]\<rparr>
      in case assistant_new R a of
           None \<Rightarrow>
             (Inr True,
              s1\<lparr>session_state :=
                   (session_state s1)\<lparr>assistant := Some (PyAssistant a),
                                      api_key_verified := Some (PyBool True)\<rparr>\<rparr>)
         | Some e \<Rightarrow>
             (Inr False,
              s1\<lparr>session_state :=
                   (session_state s1)\<lparr>api_key_verified := Some (PyBool False)\<rparr>\<rparr>))"

text \<open>The status line of the sidebar: a check mark (U+2705, in UTF-8) and its text.\<close>

definition verified_status :: string where
  "verified_status = [CHR 0xE2, CHR 0x9C, CHR 0x85] @ '' API Key Status: Verified''"

text \<open>
  \<^verbatim>\<open>show_sidebar_form\<close>: when the form was submitted, a non-empty key goes to
  \<^verbatim>\<open>verify_api_key\<close> and an empty one gives the message "Please enter an API key.".
  Then the flag is read (an AttributeError if the entry was never set) and the status
  line is shown when it is true.
\<close>

definition show_sidebar_form ::
  "remote \<Rightarrow> ui_input \<Rightarrow> app_state \<Rightarrow> (py_exception + unit) \<times> app_state" where
  "show_sidebar_form R inp s =
     (case (if btn_submitted inp then
              (if in_api_key inp \<noteq> [] then
                 (case verify_api_key R (in_api_key inp) s of
                    (Inl e, s') \<Rightarrow> (Inl e, s')
                  | (Inr ok, s') \<Rightarrow>
                      (Inr (),
                       if ok then show_event (StSuccess ''API key verified successfully!'') s'
                       else show_event
                              (StError ''Invalid API key. Please check and try again.'') s'))
               else (Inr (), show_event (StError ''Please enter an API key.'') s))
            else (Inr (), s)) of
        (Inl e, s1) \<Rightarrow> (Inl e, s1)
      | (Inr u, s1) \<Rightarrow>
          (case api_key_verified (session_state s1) of
             None \<Rightarrow> (Inl (AttributeError ''SessionState'' ''api_key_verified''), s1)
           | Some v \<Rightarrow>
               (Inr (), if truthy v then show_event (StSuccess verified_status) s1 else s1)))"

text \<open>
  The expression \<^verbatim>\<open>st.session_state.assistant.run(query, stream=False)\<close> of both
  handlers: the entry is read, then its attribute \<^verbatim>\<open>run\<close>, then the remote call is
  made. \<^verbatim>\<open>None\<close> and a bool have no attribute \<^verbatim>\<open>run\<close>.
\<close>

definition session_assistant_run ::
  "remote \<Rightarrow> string \<Rightarrow> app_state \<Rightarrow> (py_exception + string) \<times> app_state" where
  "session_assistant_run R query s =
     (case assistant (session_state s) of
        None \<Rightarrow> (Inl (AttributeError ''SessionState'' ''assistant''), s)
      | Some PyNone \<Rightarrow> (Inl (AttributeError ''NoneType'' ''run''), s)
      | Some (PyBool b) \<Rightarrow> (Inl (AttributeError ''bool'' ''run''), s)
      | Some (PyAssistant a) \<Rightarrow>
          (assistant_run R a query, s\<lparr>remote_calls := remote_calls s @ [Run a query]\<rparr>))"

definition handle_stock_comparison ::
  "remote \<Rightarrow> ui_input \<Rightarrow> app_state \<Rightarrow> (py_exception + unit) \<times> app_state" where
  "handle_stock_comparison R inp s =
     (if in_stock1 inp \<noteq> [] \<and> in_stock2 inp \<noteq> [] then
        (if btn_generate inp then
           (case session_assistant_run R
                   (generate_query (in_stock1 inp) (in_stock2 inp) (in_analysis_type inp)) s of
              (Inl e, s') \<Rightarrow> (Inl e, s')
            | (Inr response, s') \<Rightarrow> (Inr (), show_event (StMarkdown response) s'))
         else (Inr (), s))
      else (Inr (), s))"

definition handle_single_stock ::
  "remote \<Rightarrow> ui_input \<Rightarrow> app_state \<Rightarrow> (py_exception + unit) \<times> app_state" where
  "handle_single_stock R inp s =
     (if in_stock inp \<noteq> [] then
        (if btn_analyze inp then
           (case session_assistant_run R (single_stock_query (in_stock inp) (in_metrics inp)) s of
              (Inl e, s') \<Rightarrow> (Inl e, s')
            | (Inr response, s') \<Rightarrow> (Inr (), show_event (StMarkdown response) s'))
         else (Inr (), s))
      else (Inr (), s))"

definition show_main_content ::
  "remote \<Rightarrow> ui_input \<Rightarrow> app_state \<Rightarrow> (py_exception + unit) \<times> app_state" where
  "show_main_content R inp s =
     (case handle_stock_comparison R inp s of
        (Inl e, s1) \<Rightarrow> (Inl e, s1)
      | (Inr u, s1) \<Rightarrow>
          (case handle_single_stock R inp s1 of
             (Inl e, s2) \<Rightarrow> (Inl e, s2)
           | (Inr u', s2) \<Rightarrow>
               (Inr (), show_event (StInfo ''Market Insights feature coming soon!'') s2)))"

text \<open>
  \<^verbatim>\<open>run\<close>: the sidebar form, then the main content if the flag is true, the warning
  otherwise.
\<close>

definition run :: "remote \<Rightarrow> ui_input \<Rightarrow> app_state \<Rightarrow> (py_exception + unit) \<times> app_state" where
  "run R inp s =
     (case show_sidebar_form R inp s of
        (Inl e, s1) \<Rightarrow> (Inl e, s1)
      | (Inr u, s1) \<Rightarrow>
          (case api_key_verified (session_state s1) of
             None \<Rightarrow> (Inl (AttributeError ''SessionState'' ''api_key_verified''), s1)
           | Some v \<Rightarrow>
               (if truthy v then show_main_content R inp s1
                else (Inr (),
                      show_event
                        (StWarning ''Please enter your OpenAI API key in the sidebar to begin.'')
                        s1))))"

text \<open>
  The script body, executed on every interaction:
  \<^verbatim>\<open>app = StockAnalysisApp(); app.run()\<close>.
\<close>

definition main :: "remote \<Rightarrow> ui_input \<Rightarrow> app_state \<Rightarrow> (py_exception + unit) \<times> app_state" where
  "main R inp s = run R inp (init s)"

subsection \<open>Notions used in the statements\<close>

text \<open>A new browser session: nothing stored, nothing called, nothing shown.\<close>

definition fresh_state :: app_state where
  "fresh_state =
     \<lparr>session_state = \<lparr>api_key_verified = None, assistant = None\<rparr>,
      remote_calls = [], displayed = []\<rparr>"

text \<open>The session counts as verified when its flag is set and true.\<close>

definition verified :: "app_state \<Rightarrow> bool" where
  "verified s = (case api_key_verified (session_state s) of None \<Rightarrow> False | Some v \<Rightarrow> truthy v)"

text \<open>The session holds a constructed assistant (not \<^verbatim>\<open>None\<close>, not unset).\<close>

definition holds_assistant :: "app_state \<Rightarrow> bool" where
  "holds_assistant s =
     (case assistant (session_state s) of Some (PyAssistant a) \<Rightarrow> True | _ \<Rightarrow> False)"

definition session_inv :: "app_state \<Rightarrow> bool" where
  "session_inv s = (verified s \<longrightarrow> holds_assistant s)"

text \<open>The dispatch calls among the remote calls.\<close>

fun is_run :: "remote_call \<Rightarrow> bool" where
  "is_run (Run a q) = True"
| "is_run (Construct a) = False"

definition run_calls :: "app_state \<Rightarrow> remote_call list" where
  "run_calls s = filter is_run (remote_calls s)"

text \<open>An exception leaves a method uncaught when the method's outcome is \<open>Inl\<close>.\<close>

definition escapes :: "py_exception + 'a \<Rightarrow> bool" where
  "escapes r = (case r of Inl e \<Rightarrow> True | Inr v \<Rightarrow> False)"

text \<open>The states a session can be in: a new session, and any number of script runs.\<close>

inductive reachable :: "app_state \<Rightarrow> bool" where
  reachable_fresh: "reachable fresh_state"
| reachable_main: "reachable s \<Longrightarrow> reachable (snd (main R inp s))"

subsection \<open>Remote assistants and widget values for the examples\<close>

text \<open>A remote that accepts every key and answers every query.\<close>

definition remote_ok :: remote where
  "remote_ok =
     \<lparr>assistant_new = (\<lambda>a. None), assistant_run = (\<lambda>a q. Inr (''Report: '' @ q))\<rparr>"

text \<open>A remote that rejects every key.\<close>

definition remote_rejecting :: remote where
  "remote_rejecting =
     \<lparr>assistant_new = (\<lambda>a. Some (OtherException ''Incorrect API key provided'')),
      assistant_run = (\<lambda>a q. Inl (OtherException ''Incorrect API key provided''))\<rparr>"

text \<open>A remote that accepts every key and then fails every query.\<close>

definition remote_run_fails :: remote where
  "remote_run_fails =
     \<lparr>assistant_new = (\<lambda>a. None),
      assistant_run = (\<lambda>a q. Inl (OtherException ''Rate limit reached''))\<rparr>"

text \<open>No widget touched.\<close>

definition idle :: ui_input where
  "idle =
     \<lparr>in_api_key = [], btn_submitted = False, in_stock1 = [], in_stock2 = [],
      in_analysis_type = ''Full Comparison'', btn_generate = False, in_stock = [],
      in_metrics = [], btn_analyze = False\<rparr>"

text \<open>The session after a key was accepted.\<close>

definition verified_state :: app_state where
  "verified_state = snd (verify_api_key remote_ok ''sk-good'' (init fresh_state))"

text \<open>The form submitted with a key; each of the two analysis buttons pressed.\<close>

definition submit_key :: "string \<Rightarrow> ui_input" where
  "submit_key key = idle\<lparr>in_api_key := key, btn_submitted := True\<rparr>"

definition press_generate :: ui_input where
  "press_generate = idle\<lparr>in_stock1 := ''AAPL'', in_stock2 := ''MSFT'', btn_generate := True\<rparr>"

definition press_analyze :: ui_input where
  "press_analyze =
     idle\<lparr>in_stock := ''GOOGL'', in_metrics := [''Price Trends'', ''Recent News''],
          btn_analyze := True\<rparr>"

section \<open>Auxiliary facts\<close>

lemmas example_defs =
  fresh_state_def verified_state_def remote_ok_def remote_rejecting_def remote_run_fails_def
  idle_def submit_key_def press_generate_def press_analyze_def

lemmas method_defs =
  init_def verify_api_key_def show_sidebar_form_def session_assistant_run_def
  handle_stock_comparison_def handle_single_stock_def show_main_content_def run_def main_def
  show_event_def

lemmas notion_defs = verified_def holds_assistant_def session_inv_def run_calls_def escapes_def

lemma verify_fst: "fst (verify_api_key R key s) = Inr (assistant_new R (assistant_for key) = None)"
  by (simp add: verify_api_key_def Let_def split: option.splits)

lemma verify_remote_calls:
  "remote_calls (snd (verify_api_key R key s)) = remote_calls s @ [Construct (assistant_for key)]"
  by (simp add: verify_api_key_def Let_def split: option.splits)

lemma verify_displayed: "displayed (snd (verify_api_key R key s)) = displayed s"
  by (simp add: verify_api_key_def Let_def split: option.splits)

lemma verify_session_ok:
  "assistant_new R (assistant_for key) = None \<Longrightarrow>
   session_state (snd (verify_api_key R key s)) =
     (session_state s)\<lparr>assistant := Some (PyAssistant (assistant_for key)),
                       api_key_verified := Some (PyBool True)\<rparr>"
  by (simp add: verify_api_key_def Let_def)

lemma verify_session_fail:
  "assistant_new R (assistant_for key) = Some e \<Longrightarrow>
   session_state (snd (verify_api_key R key s)) =
     (session_state s)\<lparr>api_key_verified := Some (PyBool False)\<rparr>"
  by (simp add: verify_api_key_def Let_def)

lemma verify_flag_set: "api_key_verified (session_state (snd (verify_api_key R key s))) \<noteq> None"
  by (cases "assistant_new R (assistant_for key)")
     (simp_all add: verify_session_ok verify_session_fail)

lemma init_remote_calls: "remote_calls (init s) = remote_calls s"
  by (simp add: init_def Let_def)

lemma init_displayed: "displayed (init s) = displayed s"
  by (simp add: init_def Let_def)

lemma init_flag_set: "api_key_verified (session_state (init s)) \<noteq> None"
  by (simp add: init_def Let_def)

lemma init_session_inv: "session_inv s \<Longrightarrow> session_inv (init s)"
  by (auto simp: session_inv_def verified_def holds_assistant_def init_def Let_def
           split: option.splits py_value.splits)

lemma verify_session_inv: "session_inv (snd (verify_api_key R key s))"
  by (cases "assistant_new R (assistant_for key)")
     (simp_all add: session_inv_def verified_def holds_assistant_def
        verify_session_ok verify_session_fail)

text \<open>The sidebar form: what it stores and which remote call it makes.\<close>

lemma sidebar_session:
  "session_state (snd (show_sidebar_form R inp s)) =
     (if btn_submitted inp \<and> in_api_key inp \<noteq> []
      then session_state (snd (verify_api_key R (in_api_key inp) s))
      else session_state s)"
  by (cases "verify_api_key R (in_api_key inp) s")
     (simp add: show_sidebar_form_def show_event_def split: sum.splits option.splits)

lemma sidebar_remote_calls:
  "remote_calls (snd (show_sidebar_form R inp s)) =
     remote_calls s @
       (if btn_submitted inp \<and> in_api_key inp \<noteq> []
        then [Construct (assistant_for (in_api_key inp))] else [])"
  using verify_remote_calls [of R "in_api_key inp" s]
  by (cases "verify_api_key R (in_api_key inp) s")
     (simp add: show_sidebar_form_def show_event_def split: sum.splits option.splits)

lemma sidebar_returns:
  "api_key_verified (session_state s) \<noteq> None \<Longrightarrow> fst (show_sidebar_form R inp s) = Inr ()"
  using verify_fst [of R "in_api_key inp" s] verify_flag_set [of R "in_api_key inp" s]
  by (cases "verify_api_key R (in_api_key inp) s")
     (auto simp: show_sidebar_form_def show_event_def split: sum.splits option.splits)

lemma sidebar_session_inv: "session_inv s \<Longrightarrow> session_inv (snd (show_sidebar_form R inp s))"
  using verify_session_inv [of R "in_api_key inp" s]
  by (simp add: session_inv_def verified_def holds_assistant_def sidebar_session)

text \<open>The handlers do not touch the session entries.\<close>

lemma session_assistant_run_session:
  "session_assistant_run R q s = (r, s') \<Longrightarrow> session_state s' = session_state s"
  by (auto simp: session_assistant_run_def split: option.splits py_value.splits)

lemma handle_stock_comparison_session:
  "handle_stock_comparison R inp s = (r, s') \<Longrightarrow> session_state s' = session_state s"
  by (auto simp: handle_stock_comparison_def show_event_def
           split: if_splits prod.splits sum.splits dest: session_assistant_run_session)

lemma handle_single_stock_session:
  "handle_single_stock R inp s = (r, s') \<Longrightarrow> session_state s' = session_state s"
  by (auto simp: handle_single_stock_def show_event_def
           split: if_splits prod.splits sum.splits dest: session_assistant_run_session)

lemma show_main_content_session:
  "show_main_content R inp s = (r, s') \<Longrightarrow> session_state s' = session_state s"
  by (auto simp: show_main_content_def show_event_def
           split: prod.splits sum.splits
           dest!: handle_stock_comparison_session handle_single_stock_session)

text \<open>What \<open>run\<close> does, by the flag after the sidebar form.\<close>

lemma run_session:
  "session_state (snd (run R inp s)) = session_state (snd (show_sidebar_form R inp s))"
proof (cases "show_sidebar_form R inp s")
  case (Pair r1 s1)
  obtain r2 s2 where m: "show_main_content R inp s1 = (r2, s2)"
    by (cases "show_main_content R inp s1") auto
  from show_main_content_session [OF m] Pair m show ?thesis
    by (simp add: run_def show_event_def split: sum.splits option.splits)
qed

lemma run_unverified:
  assumes "\<not> verified (snd (show_sidebar_form R inp s))"
  shows "remote_calls (snd (run R inp s)) = remote_calls (snd (show_sidebar_form R inp s))"
  using assms
  by (cases "show_sidebar_form R inp s")
     (auto simp: run_def verified_def show_event_def split: sum.splits option.splits)

lemma run_unverified_warning:
  assumes "\<not> verified (snd (show_sidebar_form R inp s))"
    and "api_key_verified (session_state s) \<noteq> None"
  shows "fst (run R inp s) = Inr () \<and>
         displayed (snd (run R inp s)) =
           displayed (snd (show_sidebar_form R inp s)) @
             [StWarning ''Please enter your OpenAI API key in the sidebar to begin.'']"
proof -
  obtain s1 where s1: "show_sidebar_form R inp s = (Inr (), s1)"
    using sidebar_returns [OF assms(2), of R inp] by (cases "show_sidebar_form R inp s") auto
  have "api_key_verified (session_state s1) \<noteq> None"
    using assms(2) verify_flag_set [of R "in_api_key inp" s] sidebar_session [of R inp s] s1
    by (auto split: if_splits)
  then show ?thesis
    using assms(1) s1 by (auto simp: run_def verified_def show_event_def)
qed

lemma verified_cong: "session_state s = session_state t \<Longrightarrow> verified s = verified t"
  by (simp add: verified_def)

lemma run_calls_append_construct:
  "remote_calls t = remote_calls s @ (if c then [Construct a] else []) \<Longrightarrow>
   run_calls t = run_calls s"
  by (simp add: run_calls_def)

lemma run_unverified_calls:
  assumes "\<not> verified (snd (run R inp s))"
  shows "remote_calls (snd (run R inp s)) =
           remote_calls s @
             (if btn_submitted inp \<and> in_api_key inp \<noteq> []
              then [Construct (assistant_for (in_api_key inp))] else [])"
proof -
  have "\<not> verified (snd (show_sidebar_form R inp s))"
    using assms verified_cong [OF run_session [of R inp s]] by simp
  from run_unverified [OF this] show ?thesis
    by (simp add: sidebar_remote_calls)
qed

lemma run_session_inv: "session_inv s \<Longrightarrow> session_inv (snd (run R inp s))"
  using sidebar_session_inv [of s R inp] run_session [of R inp s]
  by (simp add: session_inv_def verified_def holds_assistant_def)

lemma main_session_inv: "session_inv s \<Longrightarrow> session_inv (snd (main R inp s))"
  by (simp add: main_def run_session_inv init_session_inv)

lemma fresh_session_inv: "session_inv fresh_state"
  by (simp add: session_inv_def verified_def fresh_state_def)

lemma reachable_session_inv: "reachable s \<Longrightarrow> session_inv s"
  by (induction rule: reachable.induct) (simp_all add: fresh_session_inv main_session_inv)

lemmas eval_defs =
  example_defs method_defs notion_defs assistant_for_def generate_query_def queries_def
  single_stock_query_def Let_def

lemma session_assistant_run_unbound:
  assumes "assistant (session_state s) = Some PyNone \<or> assistant (session_state s) = None"
  shows "session_assistant_run R q s =
           (Inl (if assistant (session_state s) = None
                 then AttributeError ''SessionState'' ''assistant''
                 else AttributeError ''NoneType'' ''run''), s)"
  using assms by (auto simp: session_assistant_run_def)


lemma init_verified: "verified (init s) = verified s"
  by (simp add: verified_def init_def Let_def split: option.splits)

lemma queries_full_comparison:
  "map_of (queries stock1 stock2) ''Full Comparison'' =
     Some (''Provide a comprehensive comparison between '' @ stock1 @ '' and '' @ stock2 @
           '' including price trends, fundamentals, and market sentiment.'')"
  by (simp add: queries_def)

lemma str_join_Cons: "str_join sep (x # xs) = x @ concat (map ((@) sep) xs)"
  by (induction xs arbitrary: x) simp_all

section \<open>The claims\<close>

subsection \<open>Gating of the dispatch\<close>

text \<open>
  C1. The dispatch (the call \<^verbatim>\<open>assistant.run\<close> of either analysis tab) happens only
  in a verified session: if \<open>run\<close> adds a dispatch call to the remote calls, the
  session's flag is true. If the flag is false when the script run ends, the run has
  returned normally with the warning as its last message and has made no dispatch call,
  whatever buttons were pressed; the only remote call it can have made is the verifier's
  own construction attempt, when the form was submitted with a key. In particular an
  unverified session in which no key is submitted stays unverified and makes no remote
  call at all. This holds from every state, reachable or not.
\<close>

theorem dispatch_only_when_verified:
  "(run_calls (snd (run R inp s)) \<noteq> run_calls s \<longrightarrow> verified (snd (run R inp s))) \<and>
   (\<not> verified (snd (main R inp s)) \<longrightarrow>
      fst (main R inp s) = Inr () \<and>
      run_calls (snd (main R inp s)) = run_calls s \<and>
      remote_calls (snd (main R inp s)) =
        remote_calls s @
          (if btn_submitted inp \<and> in_api_key inp \<noteq> []
           then [Construct (assistant_for (in_api_key inp))] else []) \<and>
      last (displayed (snd (main R inp s))) =
        StWarning ''Please enter your OpenAI API key in the sidebar to begin.'') \<and>
   (\<not> verified s \<and> \<not> (btn_submitted inp \<and> in_api_key inp \<noteq> []) \<longrightarrow>
      \<not> verified (snd (main R inp s)) \<and> remote_calls (snd (main R inp s)) = remote_calls s)"
proof (intro conjI impI)
  assume "run_calls (snd (run R inp s)) \<noteq> run_calls s"
  then show "verified (snd (run R inp s))"
    using run_calls_append_construct [OF run_unverified_calls, of R inp s] by blast
next
  assume u: "\<not> verified (snd (main R inp s))"
  then have u': "\<not> verified (snd (run R inp (init s)))"
    by (simp add: main_def)
  have side: "\<not> verified (snd (show_sidebar_form R inp (init s)))"
    using u' verified_cong [OF run_session [of R inp "init s"]] by simp
  from run_unverified_warning [OF side init_flag_set]
  show "fst (main R inp s) = Inr ()"
    and "last (displayed (snd (main R inp s))) =
           StWarning ''Please enter your OpenAI API key in the sidebar to begin.''"
    by (simp_all add: main_def)
  from run_unverified_calls [OF u']
  show calls: "remote_calls (snd (main R inp s)) =
        remote_calls s @
          (if btn_submitted inp \<and> in_api_key inp \<noteq> []
           then [Construct (assistant_for (in_api_key inp))] else [])"
    by (simp add: main_def init_remote_calls)
  from run_calls_append_construct [OF calls]
  show "run_calls (snd (main R inp s)) = run_calls s" .
next
  assume a: "\<not> verified s \<and> \<not> (btn_submitted inp \<and> in_api_key inp \<noteq> [])"
  then have "session_state (snd (run R inp (init s))) = session_state (init s)"
    by (auto simp: run_session sidebar_session)
  from verified_cong [OF this] a
  show n: "\<not> verified (snd (main R inp s))"
    by (simp add: main_def init_verified)
  then have "\<not> verified (snd (run R inp (init s)))"
    by (simp add: main_def)
  from run_unverified_calls [OF this] a
  show "remote_calls (snd (main R inp s)) = remote_calls s"
    by (simp add: main_def init_remote_calls)
qed

text \<open>
  Instance for C1: pressing "Generate Analysis" in the verified session dispatches, in
  a new session it gives the warning and no remote call.
\<close>

theorem dispatch_only_when_verified_witness:
  "run_calls (snd (run remote_ok press_generate verified_state)) \<noteq> run_calls verified_state \<and>
   verified (snd (run remote_ok press_generate verified_state)) \<and>
   \<not> verified (snd (main remote_ok press_generate fresh_state)) \<and>
   fst (main remote_ok press_generate fresh_state) = Inr () \<and>
   remote_calls (snd (main remote_ok press_generate fresh_state)) = [] \<and>
   \<not> verified fresh_state \<and> btn_generate press_generate \<and>
   last (displayed (snd (main remote_ok press_generate fresh_state))) =
     StWarning ''Please enter your OpenAI API key in the sidebar to begin.''"
proof -
  have d: "run_calls (snd (run remote_ok press_generate verified_state)) \<noteq>
           run_calls verified_state"
    by (simp add: eval_defs)
  have u: "\<not> verified (snd (main remote_ok press_generate fresh_state))"
    by (simp add: eval_defs)
  have i: "\<not> (btn_submitted press_generate \<and> in_api_key press_generate \<noteq> [])"
    by (simp add: press_generate_def idle_def)
  have f: "remote_calls fresh_state = [] \<and> \<not> verified fresh_state \<and>
           btn_generate press_generate"
    by (simp add: fresh_state_def verified_def press_generate_def idle_def)
  show ?thesis
    using d u i f
      dispatch_only_when_verified [of remote_ok press_generate verified_state]
      dispatch_only_when_verified [of remote_ok press_generate fresh_state]
    by simp
qed

subsection \<open>Failed verification\<close>

text \<open>
  C2 as stated does not hold. In a session that holds the assistant built from the key
  "sk-good", verifying the key "sk-bad" against a remote that rejects it returns
  \<^verbatim>\<open>False\<close>, and the session still holds the assistant of "sk-good": the
  \<^verbatim>\<open>except\<close> branch assigns the flag only.
\<close>

theorem verify_failure_keeps_handle:
  "assistant_new remote_rejecting (assistant_for ''sk-bad'') =
     Some (OtherException ''Incorrect API key provided'') \<and>
   fst (verify_api_key remote_rejecting ''sk-bad'' verified_state) = Inr False \<and>
   assistant (session_state verified_state) = Some (PyAssistant (assistant_for ''sk-good'')) \<and>
   assistant (session_state (snd (verify_api_key remote_rejecting ''sk-bad'' verified_state))) =
     Some (PyAssistant (assistant_for ''sk-good'')) \<and>
   holds_assistant (snd (verify_api_key remote_rejecting ''sk-bad'' verified_state))"
  by (simp add: eval_defs)

text \<open>
  C2, amended. For every secret, if the construction of the remote assistant raises,
  \<open>verify_api_key\<close> returns \<^verbatim>\<open>False\<close>, afterwards the session's verified flag is
  false, and the stored assistant entry is what it was before the call.
\<close>

theorem verify_failure_state:
  assumes "assistant_new R (assistant_for key) = Some e"
  shows "fst (verify_api_key R key s) = Inr False \<and>
         api_key_verified (session_state (snd (verify_api_key R key s))) = Some (PyBool False) \<and>
         \<not> verified (snd (verify_api_key R key s)) \<and>
         assistant (session_state (snd (verify_api_key R key s))) = assistant (session_state s)"
  using assms by (simp add: verify_fst verify_session_fail verified_def)

text \<open>Instance for C2: the rejected key "sk-bad" in the verified session.\<close>

theorem verify_failure_state_witness:
  "assistant_new remote_rejecting (assistant_for ''sk-bad'') =
     Some (OtherException ''Incorrect API key provided'') \<and>
   fst (verify_api_key remote_rejecting ''sk-bad'' verified_state) = Inr False \<and>
   \<not> verified (snd (verify_api_key remote_rejecting ''sk-bad'' verified_state)) \<and>
   assistant (session_state (snd (verify_api_key remote_rejecting ''sk-bad'' verified_state))) =
     assistant (session_state verified_state)"
proof -
  have h: "assistant_new remote_rejecting (assistant_for ''sk-bad'') =
             Some (OtherException ''Incorrect API key provided'')"
    by (simp add: remote_rejecting_def)
  show ?thesis
    using h verify_failure_state [OF h, of verified_state] by simp
qed

subsection \<open>Empty and blank secrets\<close>

text \<open>
  C3 as stated does not hold. The secret that is one space is not empty, so the form
  passes it to \<open>verify_api_key\<close>, the construction is attempted with it, and with a
  remote that accepts it the session becomes verified. \<open>verify_api_key\<close> itself has no
  check of the secret: called with the empty secret it attempts the construction too.
\<close>

theorem whitespace_secret_is_verified:
  "in_api_key (submit_key '' '') = [CHR '' ''] \<and>
   remote_calls (snd (show_sidebar_form remote_ok (submit_key '' '') (init fresh_state))) =
     [Construct (assistant_for '' '')] \<and>
   verified (snd (show_sidebar_form remote_ok (submit_key '' '') (init fresh_state))) \<and>
   fst (verify_api_key remote_ok '' '' (init fresh_state)) = Inr True \<and>
   remote_calls (snd (verify_api_key remote_rejecting [] (init fresh_state))) =
     [Construct (assistant_for [])]"
  by (simp add: eval_defs)

text \<open>
  C3, amended. When the form is submitted with the empty secret, the sidebar shows
  "Please enter an API key." (and then the status line, if the session is verified),
  \<open>verify_api_key\<close> is not called, no construction is attempted and the session is
  unchanged. When it is submitted with any non-empty secret, whitespace-only ones
  included, exactly one construction is attempted, with that secret.
\<close>

theorem empty_secret_rejected:
  "(btn_submitted inp \<and> in_api_key inp = [] \<longrightarrow>
      remote_calls (snd (show_sidebar_form R inp s)) = remote_calls s \<and>
      session_state (snd (show_sidebar_form R inp s)) = session_state s \<and>
      displayed (snd (show_sidebar_form R inp s)) =
        displayed s @ StError ''Please enter an API key.'' #
          (if verified s then [StSuccess verified_status] else [])) \<and>
   (btn_submitted inp \<and> in_api_key inp \<noteq> [] \<longrightarrow>
      remote_calls (snd (show_sidebar_form R inp s)) =
        remote_calls s @ [Construct (assistant_for (in_api_key inp))])"
proof (intro conjI impI)
  assume a: "btn_submitted inp \<and> in_api_key inp = []"
  then show "remote_calls (snd (show_sidebar_form R inp s)) = remote_calls s"
    by (simp add: sidebar_remote_calls)
  from a show "session_state (snd (show_sidebar_form R inp s)) = session_state s"
    by (simp add: sidebar_session)
  from a show "displayed (snd (show_sidebar_form R inp s)) =
        displayed s @ StError ''Please enter an API key.'' #
          (if verified s then [StSuccess verified_status] else [])"
    by (simp add: show_sidebar_form_def show_event_def verified_def split: option.splits)
next
  assume "btn_submitted inp \<and> in_api_key inp \<noteq> []"
  then show "remote_calls (snd (show_sidebar_form R inp s)) =
        remote_calls s @ [Construct (assistant_for (in_api_key inp))]"
    by (simp add: sidebar_remote_calls)
qed

text \<open>Instance for C3: the form submitted empty, and with the key "sk-good".\<close>

theorem empty_secret_rejected_witness:
  "btn_submitted (submit_key []) \<and> in_api_key (submit_key []) = [] \<and>
   remote_calls (snd (show_sidebar_form remote_ok (submit_key []) (init fresh_state))) = [] \<and>
   displayed (snd (show_sidebar_form remote_ok (submit_key []) (init fresh_state))) =
     [StError ''Please enter an API key.''] \<and>
   btn_submitted (submit_key ''sk-good'') \<and> in_api_key (submit_key ''sk-good'') \<noteq> [] \<and>
   remote_calls (snd (show_sidebar_form remote_ok (submit_key ''sk-good'') (init fresh_state))) =
     [Construct (assistant_for ''sk-good'')]"
proof -
  have e: "btn_submitted (submit_key []) \<and> in_api_key (submit_key []) = []"
    by (simp add: submit_key_def idle_def)
  have n: "btn_submitted (submit_key ''sk-good'') \<and> in_api_key (submit_key ''sk-good'') \<noteq> []"
    by (simp add: submit_key_def idle_def)
  have f: "remote_calls (init fresh_state) = [] \<and> displayed (init fresh_state) = [] \<and>
           \<not> verified (init fresh_state)"
    by (simp add: init_def fresh_state_def verified_def)
  have k: "in_api_key (submit_key ''sk-good'') = ''sk-good''"
    by (simp add: submit_key_def idle_def)
  show ?thesis
    using e n f k
      empty_secret_rejected [of "submit_key []" remote_ok "init fresh_state"]
      empty_secret_rejected [of "submit_key ''sk-good''" remote_ok "init fresh_state"]
    by simp
qed

subsection \<open>Dispatch without an assistant\<close>

text \<open>
  C4 as stated does not hold. After \<open>init\<close> on a new session the assistant entry is
  \<^verbatim>\<open>None\<close>; both handlers, with their button pressed, do not return an error value
  but raise \<^verbatim>\<open>AttributeError\<close> (\<^verbatim>\<open>None\<close> has no attribute \<^verbatim>\<open>run\<close>), which leaves the
  handler uncaught.
\<close>

theorem dispatch_without_handle_raises:
  "assistant (session_state (init fresh_state)) = Some PyNone \<and>
   fst (handle_stock_comparison remote_ok press_generate (init fresh_state)) =
     Inl (AttributeError ''NoneType'' ''run'') \<and>
   fst (handle_single_stock remote_ok press_analyze (init fresh_state)) =
     Inl (AttributeError ''NoneType'' ''run'') \<and>
   escapes (fst (handle_stock_comparison remote_ok press_generate (init fresh_state))) \<and>
   escapes (fst (handle_single_stock remote_ok press_analyze (init fresh_state)))"
  by (simp add: eval_defs)

text \<open>
  C4, amended. For every query, if a handler dispatches while the session's assistant
  entry is \<^verbatim>\<open>None\<close> or was never set, the handler raises \<^verbatim>\<open>AttributeError\<close>, which it
  does not catch, and the state is unchanged: no call to the remote assistant is made and
  nothing is shown.
\<close>

theorem dispatch_without_handle:
  assumes "assistant (session_state s) = Some PyNone \<or> assistant (session_state s) = None"
  shows "(in_stock1 inp \<noteq> [] \<and> in_stock2 inp \<noteq> [] \<and> btn_generate inp \<longrightarrow>
            handle_stock_comparison R inp s =
              (Inl (if assistant (session_state s) = None
                    then AttributeError ''SessionState'' ''assistant''
                    else AttributeError ''NoneType'' ''run''), s)) \<and>
         (in_stock inp \<noteq> [] \<and> btn_analyze inp \<longrightarrow>
            handle_single_stock R inp s =
              (Inl (if assistant (session_state s) = None
                    then AttributeError ''SessionState'' ''assistant''
                    else AttributeError ''NoneType'' ''run''), s))"
  by (simp add: handle_stock_comparison_def handle_single_stock_def
        session_assistant_run_unbound [OF assms])

text \<open>Instance for C4: both buttons in the session right after \<open>init\<close>.\<close>

theorem dispatch_without_handle_witness:
  "(assistant (session_state (init fresh_state)) = Some PyNone \<or>
    assistant (session_state (init fresh_state)) = None) \<and>
   in_stock1 press_generate \<noteq> [] \<and> in_stock2 press_generate \<noteq> [] \<and>
   btn_generate press_generate \<and>
   handle_stock_comparison remote_ok press_generate (init fresh_state) =
     (Inl (AttributeError ''NoneType'' ''run''), init fresh_state) \<and>
   in_stock press_analyze \<noteq> [] \<and> btn_analyze press_analyze \<and>
   handle_single_stock remote_ok press_analyze (init fresh_state) =
     (Inl (AttributeError ''NoneType'' ''run''), init fresh_state) \<and>
   remote_calls (init fresh_state) = []"
proof -
  have h: "assistant (session_state (init fresh_state)) = Some PyNone \<or>
           assistant (session_state (init fresh_state)) = None"
    by (simp add: init_def fresh_state_def)
  have n: "assistant (session_state (init fresh_state)) \<noteq> None"
    by (simp add: init_def fresh_state_def)
  have g: "in_stock1 press_generate \<noteq> [] \<and> in_stock2 press_generate \<noteq> [] \<and>
           btn_generate press_generate"
    by (simp add: press_generate_def idle_def)
  have a: "in_stock press_analyze \<noteq> [] \<and> btn_analyze press_analyze"
    by (simp add: press_analyze_def idle_def)
  have c: "remote_calls (init fresh_state) = []"
    by (simp add: init_def fresh_state_def)
  show ?thesis
    using h n g a c
      dispatch_without_handle [OF h, of press_generate remote_ok]
      dispatch_without_handle [OF h, of press_analyze remote_ok]
    by simp
qed

subsection \<open>Failures of the remote assistant\<close>




subsection \<open>The query builder\<close>

text \<open>
  C6. The analysis types the dictionary knows are the four selectbox options
  \<^verbatim>\<open>"Full Comparison"\<close>, \<^verbatim>\<open>"Price Analysis"\<close>, \<^verbatim>\<open>"Fundamentals"\<close> and \<^verbatim>\<open>"News"\<close>
  (the kinds FullComparison, PriceAnalysis, Fundamentals, News). For every pair of
  symbols and every other analysis type, \<open>generate_query\<close> returns exactly the string it
  returns for \<^verbatim>\<open>"Full Comparison"\<close>.
\<close>

theorem generate_query_default:
  assumes "analysis_type \<notin> set analysis_types"
  shows "generate_query stock1 stock2 analysis_type =
         generate_query stock1 stock2 ''Full Comparison''"
  using assms by (simp add: generate_query_def queries_def analysis_types_def)

text \<open>Instance for C6: the unknown analysis type "Dividends".\<close>

theorem generate_query_default_witness:
  "''Dividends'' \<notin> set analysis_types \<and>
   generate_query ''AAPL'' ''MSFT'' ''Dividends'' =
     generate_query ''AAPL'' ''MSFT'' ''Full Comparison'' \<and>
   generate_query ''AAPL'' ''MSFT'' ''Dividends'' =
     ''Provide a comprehensive comparison between AAPL and MSFT including price trends, fundamentals, and market sentiment.''"
proof -
  have h: "''Dividends'' \<notin> set analysis_types"
    by (simp add: analysis_types_def)
  show ?thesis
    using h generate_query_default [OF h, of "''AAPL''" "''MSFT''"]
    by (simp add: generate_query_def queries_def)
qed

text \<open>
  C7. The single-stock query for GOOGL with the metrics Price Trends, Recent News (in
  that order) is exactly "Analyze GOOGL focusing on Price Trends, Recent News". In
  general, for every symbol and every list of labels, the query is "Analyze ", the
  symbol, " focusing on ", and then the labels in the order supplied: the first label as
  it is, every later one preceded by ", " (nothing for the empty list). The order is not
  normalised: the same two labels in the other order give a different query.
\<close>

theorem single_stock_query_order:
  "single_stock_query ''GOOGL'' [''Price Trends'', ''Recent News''] =
     ''Analyze GOOGL focusing on Price Trends, Recent News'' \<and>
   single_stock_query stock labels =
     ''Analyze '' @ stock @ '' focusing on '' @
       (case labels of [] \<Rightarrow> [] | m # ms \<Rightarrow> m @ concat (map (\<lambda>l. '', '' @ l) ms)) \<and>
   single_stock_query ''GOOGL'' [''Recent News'', ''Price Trends''] =
     ''Analyze GOOGL focusing on Recent News, Price Trends'' \<and>
   single_stock_query ''GOOGL'' [''Recent News'', ''Price Trends''] \<noteq>
     single_stock_query ''GOOGL'' [''Price Trends'', ''Recent News'']"
proof -
  have general: "single_stock_query stock labels =
     ''Analyze '' @ stock @ '' focusing on '' @
       (case labels of [] \<Rightarrow> [] | m # ms \<Rightarrow> m @ concat (map (\<lambda>l. '', '' @ l) ms))"
  proof (cases labels)
    case Nil
    then show ?thesis by (simp add: single_stock_query_def)
  next
    case (Cons m ms)
    show ?thesis unfolding Cons by (simp add: single_stock_query_def str_join_Cons)
  qed
  have examples:
    "single_stock_query ''GOOGL'' [''Price Trends'', ''Recent News''] =
       ''Analyze GOOGL focusing on Price Trends, Recent News''"
    "single_stock_query ''GOOGL'' [''Recent News'', ''Price Trends''] =
       ''Analyze GOOGL focusing on Recent News, Price Trends''"
    by (simp_all add: single_stock_query_def)
  have differ:
    "single_stock_query ''GOOGL'' [''Recent News'', ''Price Trends''] \<noteq>
     single_stock_query ''GOOGL'' [''Price Trends'', ''Recent News'']"
    by (simp add: single_stock_query_def)
  from general examples differ show ?thesis
    by (intro conjI)
qed

text \<open>
  C8 as stated does not hold. The string "PriceAnalysis" is not a key of the
  dictionary (the key is spelled "Price Analysis"), so \<open>generate_query\<close> with the
  symbols AAPL and MSFT and that string returns the default, the Full Comparison text,
  which names both symbols and contains "fundamental" (in "fundamentals").
\<close>

theorem generate_query_unspaced_kind:
  "''PriceAnalysis'' \<notin> set analysis_types \<and>
   generate_query ''AAPL'' ''MSFT'' ''PriceAnalysis'' =
     ''Provide a comprehensive comparison between AAPL and MSFT including price trends, fundamentals, and market sentiment.'' \<and>
   sublist ''fundamental'' (generate_query ''AAPL'' ''MSFT'' ''PriceAnalysis'')"
proof -
  have k: "''PriceAnalysis'' \<notin> set analysis_types"
    by (simp add: analysis_types_def)
  have q: "generate_query ''AAPL'' ''MSFT'' ''PriceAnalysis'' =
             ''Provide a comprehensive comparison between AAPL and MSFT including price trends, fundamentals, and market sentiment.''"
    by (simp add: generate_query_def queries_def)
  have f: "sublist ''fundamental''
             ''Provide a comprehensive comparison between AAPL and MSFT including price trends, fundamentals, and market sentiment.''"
    by code_simp
  show ?thesis
    unfolding q using k f by simp
qed

text \<open>
  C8, amended. The comparison query for AAPL and MSFT with the analysis type
  "Price Analysis", the selectbox option and dictionary key as the program spells it,
  is "Compare price performance and technical indicators for AAPL and MSFT."; it
  contains "AAPL" and "MSFT" and does not contain "fundamental".
\<close>

theorem generate_query_price_analysis:
  "''Price Analysis'' \<in> set analysis_types \<and>
   generate_query ''AAPL'' ''MSFT'' ''Price Analysis'' =
     ''Compare price performance and technical indicators for AAPL and MSFT.'' \<and>
   sublist ''AAPL'' (generate_query ''AAPL'' ''MSFT'' ''Price Analysis'') \<and>
   sublist ''MSFT'' (generate_query ''AAPL'' ''MSFT'' ''Price Analysis'') \<and>
   \<not> sublist ''fundamental'' (generate_query ''AAPL'' ''MSFT'' ''Price Analysis'')"
proof -
  have q: "generate_query ''AAPL'' ''MSFT'' ''Price Analysis'' =
             ''Compare price performance and technical indicators for AAPL and MSFT.''"
    by (simp add: generate_query_def queries_def)
  have a: "sublist ''AAPL'' ''Compare price performance and technical indicators for AAPL and MSFT.''"
    by code_simp
  have b: "sublist ''MSFT'' ''Compare price performance and technical indicators for AAPL and MSFT.''"
    by code_simp
  have c: "\<not> sublist ''fundamental''
             ''Compare price performance and technical indicators for AAPL and MSFT.''"
    by code_simp
  show ?thesis
    unfolding q using a b c by (simp add: analysis_types_def)
qed

text \<open>
  C9. With an empty list of metrics the single-stock query is "Analyze ", the symbol,
  and " focusing on " with nothing after it.
\<close>

theorem single_stock_query_no_metrics:
  "single_stock_query stock [] = ''Analyze '' @ stock @ '' focusing on ''"
  by (simp add: single_stock_query_def)

subsection \<open>The session invariant\<close>

text \<open>
  C10. The invariant \<open>session_inv\<close>: whenever the session's verified flag is true, the
  session holds a constructed assistant. It holds after \<open>init\<close> on a new session; \<open>init\<close>
  preserves it; a successful \<open>verify_api_key\<close> leaves the flag true and an assistant
  stored; a failed one leaves the flag false; so \<open>verify_api_key\<close> establishes it from
  any state; and a whole script run preserves it.
\<close>

theorem session_inv_preserved:
  "session_inv (init fresh_state) \<and>
   (session_inv s \<longrightarrow> session_inv (init s)) \<and>
   (assistant_new R (assistant_for key) = None \<longrightarrow>
      verified (snd (verify_api_key R key s)) \<and> holds_assistant (snd (verify_api_key R key s))) \<and>
   (assistant_new R (assistant_for key) = Some e \<longrightarrow>
      \<not> verified (snd (verify_api_key R key s))) \<and>
   session_inv (snd (verify_api_key R key s)) \<and>
   (session_inv s \<longrightarrow> session_inv (snd (main R inp s)))"
  by (simp add: init_session_inv fresh_session_inv verify_session_inv main_session_inv
        verified_def holds_assistant_def verify_session_ok verify_session_fail)

text \<open>
  Instance for C10: the verified session, a further accepted key and a rejected one.
\<close>

theorem session_inv_preserved_witness:
  "session_inv verified_state \<and> verified verified_state \<and> holds_assistant verified_state \<and>
   session_inv (init verified_state) \<and>
   assistant_new remote_ok (assistant_for ''sk-new'') = None \<and>
   verified (snd (verify_api_key remote_ok ''sk-new'' verified_state)) \<and>
   holds_assistant (snd (verify_api_key remote_ok ''sk-new'' verified_state)) \<and>
   assistant_new remote_rejecting (assistant_for ''sk-bad'') =
     Some (OtherException ''Incorrect API key provided'') \<and>
   \<not> verified (snd (verify_api_key remote_rejecting ''sk-bad'' verified_state)) \<and>
   session_inv (snd (verify_api_key remote_rejecting ''sk-bad'' verified_state)) \<and>
   session_inv (snd (main remote_ok press_generate verified_state))"
proof -
  have i: "verified verified_state \<and> holds_assistant verified_state"
    by (simp add: verified_state_def verified_def holds_assistant_def verify_session_ok
          remote_ok_def)
  then have j: "session_inv verified_state"
    by (simp add: session_inv_def)
  have k: "assistant_new remote_ok (assistant_for ''sk-new'') = None"
    by (simp add: remote_ok_def)
  have b: "assistant_new remote_rejecting (assistant_for ''sk-bad'') =
             Some (OtherException ''Incorrect API key provided'')"
    by (simp add: remote_rejecting_def)
  show ?thesis
    using i j k b
      session_inv_preserved [of verified_state remote_ok "''sk-new''" _ press_generate]
      session_inv_preserved [of verified_state remote_rejecting "''sk-bad''"
        "OtherException ''Incorrect API key provided''"]
    by simp
qed

end
